theory Spec2Isabelle
  imports Complex_Main
begin

section \<open>NumPy floating-point values\<close>

text \<open>
  The notebook computes its curves with NumPy on \<open>float64\<close> arrays. A \<open>float64\<close> is either
  a finite number or one of the special values \<open>inf\<close>, \<open>-inf\<close> and \<open>nan\<close>. The special
  values are kept, because NumPy's \<open>log10\<close> produces them instead of raising:
  \<open>np.log10(0.0)\<close> is \<open>-inf\<close> and \<open>np.log10(x)\<close> for negative \<open>x\<close> is \<open>nan\<close>, each
  with a \<open>RuntimeWarning\<close> only.

  In the operations of this section finite values are idealised as reals: rounding, overflow
  and the sign of zero are not modelled. Properties of the curves are therefore stated on
  ranges where the rounding of binary64 does not decide them: away from the boundary of a
  logarithm's domain, between thresholds that are far enough apart, on whole epochs. Where
  rounding does decide, the rounded operations of the next section show it.
\<close>

datatype npfloat = Fin real | PInf | NInf | NaN

fun is_finite :: "npfloat \<Rightarrow> bool" where
  "is_finite (Fin x) = True"
| "is_finite PInf = False"
| "is_finite NInf = False"
| "is_finite NaN = False"

fun np_add :: "npfloat \<Rightarrow> npfloat \<Rightarrow> npfloat" where
  "np_add NaN y = NaN"
| "np_add x NaN = NaN"
| "np_add (Fin a) (Fin b) = Fin (a + b)"
| "np_add PInf NInf = NaN"
| "np_add NInf PInf = NaN"
| "np_add PInf y = PInf"
| "np_add x PInf = PInf"
| "np_add NInf y = NInf"
| "np_add x NInf = NInf"

fun np_neg :: "npfloat \<Rightarrow> npfloat" where
  "np_neg (Fin a) = Fin (- a)"
| "np_neg PInf = NInf"
| "np_neg NInf = PInf"
| "np_neg NaN = NaN"

definition np_sub :: "npfloat \<Rightarrow> npfloat \<Rightarrow> npfloat" where
  "np_sub x y = np_add x (np_neg y)"

text \<open>The product of an infinity and a finite number takes the sign of the product, and is
  \<open>nan\<close> when the finite factor is zero.\<close>

definition inf_times :: "bool \<Rightarrow> real \<Rightarrow> npfloat" where
  "inf_times positive a =
     (if a = 0 then NaN else if (0 < a) = positive then PInf else NInf)"

fun np_mul :: "npfloat \<Rightarrow> npfloat \<Rightarrow> npfloat" where
  "np_mul NaN y = NaN"
| "np_mul x NaN = NaN"
| "np_mul (Fin a) (Fin b) = Fin (a * b)"
| "np_mul PInf (Fin b) = inf_times True b"
| "np_mul NInf (Fin b) = inf_times False b"
| "np_mul (Fin a) PInf = inf_times True a"
| "np_mul (Fin a) NInf = inf_times False a"
| "np_mul PInf PInf = PInf"
| "np_mul NInf NInf = PInf"
| "np_mul PInf NInf = NInf"
| "np_mul NInf PInf = NInf"

text \<open>Division. A zero divisor does not raise in NumPy: \<open>0/0\<close> is \<open>nan\<close> and \<open>a/0\<close> is an
  infinity (the divisor is taken as \<open>+0\<close>).\<close>

fun np_div :: "npfloat \<Rightarrow> npfloat \<Rightarrow> npfloat" where
  "np_div NaN y = NaN"
| "np_div x NaN = NaN"
| "np_div (Fin a) (Fin b) =
     (if b \<noteq> 0 then Fin (a / b) else if a = 0 then NaN else if 0 < a then PInf else NInf)"
| "np_div (Fin a) PInf = Fin 0"
| "np_div (Fin a) NInf = Fin 0"
| "np_div PInf (Fin b) = (if 0 \<le> b then PInf else NInf)"
| "np_div NInf (Fin b) = (if 0 \<le> b then NInf else PInf)"
| "np_div PInf y = NaN"
| "np_div NInf y = NaN"

fun np_exp :: "npfloat \<Rightarrow> npfloat" where
  "np_exp (Fin a) = Fin (exp a)"
| "np_exp PInf = PInf"
| "np_exp NInf = Fin 0"
| "np_exp NaN = NaN"

fun np_log10 :: "npfloat \<Rightarrow> npfloat" where
  "np_log10 (Fin a) = (if 0 < a then Fin (log 10 a) else if a = 0 then NInf else NaN)"
| "np_log10 PInf = PInf"
| "np_log10 NInf = NaN"
| "np_log10 NaN = NaN"

text \<open>\<open>x ** 2\<close>: the square, \<open>inf\<close> for both infinities and \<open>nan\<close> for \<open>nan\<close>.\<close>

definition np_square :: "npfloat \<Rightarrow> npfloat" where
  "np_square x = np_mul x x"

text \<open>Comparison \<open><\<close>: every comparison with \<open>nan\<close> is false.\<close>

fun np_less :: "npfloat \<Rightarrow> npfloat \<Rightarrow> bool" where
  "np_less NaN y = False"
| "np_less x NaN = False"
| "np_less (Fin a) (Fin b) = (a < b)"
| "np_less NInf NInf = False"
| "np_less NInf y = True"
| "np_less x NInf = False"
| "np_less PInf y = False"
| "np_less x PInf = True"

section \<open>Rounding to binary64\<close>

text \<open>
  IEEE 754 arithmetic returns the binary64 number nearest to the exact result, the one with
  the even significand on a tie. A binary64 number is a multiple of the quantum of its binade:
  \<open>2^(e - 52)\<close> for a magnitude in \<open>[2^e, 2^(e + 1))\<close>, and \<open>2^(-1074)\<close> below
  \<open>2^(-1022)\<close>. A result of magnitude \<open>2^1024\<close> or more overflows to an infinity.
\<close>

definition round_half_even :: "real \<Rightarrow> int" where
  "round_half_even z =
     (let f = \<lfloor>z\<rfloor>; d = z - of_int f
      in if d < 1 / 2 then f else if 1 / 2 < d then f + 1 else if even f then f else f + 1)"

definition b64_round :: "real \<Rightarrow> npfloat" where
  "b64_round x =
     (if x = 0 then Fin 0
      else let e = max \<lfloor>log 2 \<bar>x\<bar>\<rfloor> (- 1022);
               q = 2 powr (of_int e - 52);
               y = of_int (round_half_even (x / q)) * q
           in if 2 ^ 1024 \<le> \<bar>y\<bar> then (if 0 < x then PInf else NInf) else Fin y)"

fun b64 :: "npfloat \<Rightarrow> npfloat" where
  "b64 (Fin x) = b64_round x"
| "b64 PInf = PInf"
| "b64 NInf = NInf"
| "b64 NaN = NaN"

section \<open>The univariate curves of the fictitious model\<close>

text \<open>
  Each definition is the expression the notebook applies to every element of its input array
  (\<open>Fictitious_Model_for_Hyperparameter_Tuning.ipynb\<close>). The notebook reuses the variable names
  \<open>loss\<close> and \<open>accuracy\<close> for the curves over the epoch and over the learning rate; the
  definitions carry the parameter in their names to keep them apart.
\<close>

definition precision_of_threshold :: "real \<Rightarrow> npfloat" where
  \<comment> \<open>\<open>precision = 0.1 + 0.9 / (1 + 5000 * np.exp(-20 * thr))\<close>\<close>
  "precision_of_threshold thr =
     np_add (Fin 0.1)
       (np_div (Fin 0.9) (np_add (Fin 1) (np_mul (Fin 5000) (np_exp (np_mul (Fin (- 20)) (Fin thr))))))"

definition recall_of_threshold :: "real \<Rightarrow> npfloat" where
  \<comment> \<open>\<open>recall = 1 / (1 + 1e-5 * np.exp(20 * thr))\<close>\<close>
  "recall_of_threshold thr =
     np_div (Fin 1) (np_add (Fin 1) (np_mul (Fin 0.00001) (np_exp (np_mul (Fin 20) (Fin thr)))))"

definition loss_of_epoch :: "real \<Rightarrow> npfloat" where
  \<comment> \<open>\<open>loss = 3 + 7 * np.exp(-0.05 * epoch)\<close>\<close>
  "loss_of_epoch epoch =
     np_add (Fin 3) (np_mul (Fin 7) (np_exp (np_mul (Fin (- 0.05)) (Fin epoch))))"

definition accuracy_of_epoch :: "real \<Rightarrow> npfloat" where
  \<comment> \<open>\<open>accuracy = 0.95 - 3 * (np.log10(3 - 0.025 * epoch)) ** 2\<close>\<close>
  "accuracy_of_epoch epoch =
     np_sub (Fin 0.95)
       (np_mul (Fin 3) (np_square (np_log10 (np_sub (Fin 3) (np_mul (Fin 0.025) (Fin epoch))))))"

definition loss_of_lr :: "real \<Rightarrow> npfloat" where
  \<comment> \<open>\<open>z = np.log10(lr); loss = 0.6 + (np.log10(0.9 - z)) ** 2\<close>\<close>
  "loss_of_lr lr =
     (let z = np_log10 (Fin lr)
      in np_add (Fin 0.6) (np_square (np_log10 (np_sub (Fin 0.9) z))))"

definition accuracy_of_lr :: "real \<Rightarrow> npfloat" where
  \<comment> \<open>\<open>z = np.log10(lr); accuracy = 0.98 - (np.log10(0.7 - 0.5 * z)) ** 2\<close>\<close>
  "accuracy_of_lr lr =
     (let z = np_log10 (Fin lr)
      in np_sub (Fin 0.98) (np_square (np_log10 (np_sub (Fin 0.7) (np_mul (Fin 0.5) z)))))"

text \<open>
  The precision curve with every operation rounded to binary64. The threshold is a binary64
  number; the literals \<open>0.1\<close> and \<open>0.9\<close> stand for the binary64 numbers nearest to them;
  the library's \<open>exp\<close> is taken as correctly rounded.
\<close>

definition precision_of_threshold_b64 :: "real \<Rightarrow> npfloat" where
  \<comment> \<open>\<open>precision = 0.1 + 0.9 / (1 + 5000 * np.exp(-20 * thr))\<close>\<close>
  "precision_of_threshold_b64 thr =
     (let t = b64 (np_mul (Fin (- 20)) (Fin thr));
          e = b64 (np_exp t);
          d = b64 (np_add (Fin 1) (b64 (np_mul (Fin 5000) e)))
      in b64 (np_add (b64_round 0.1) (b64 (np_div (b64_round 0.9) d))))"

section \<open>The multivariate metrics, the F-score and one evaluation\<close>

text \<open>
  The notebook gives the multivariate metrics and the balanced F-score as formulas in its text
  only; the training script that computes them for a run of the pipeline
  (\<open>src/pipeline/train.py\<close>, named by the pipeline notebook) is not among the sources. The
  definitions of this section follow the formulas, which the specification repeats, with the
  arithmetic of the univariate curves.
\<close>

text \<open>Modelled from the spec: the weights \<open>MetricWeights\<close>, four constant scalar factors
  (\<open>k_A\<close>, \<open>k_P\<close>, \<open>k_R\<close> and \<open>k_L\<close> in the notebook's text), absent from the code.\<close>

record MetricWeights =
  k_accuracy :: real
  k_precision :: real
  k_recall :: real
  k_loss :: real

text \<open>Modelled from the spec: the default weights, absent from the code; each weight
  defaults to 1.\<close>

definition default_weights :: MetricWeights where
  "default_weights = \<lparr>k_accuracy = 1, k_precision = 1, k_recall = 1, k_loss = 1\<rparr>"

text \<open>Modelled from the spec: the multivariate accuracy, absent from the code,
  \<open>accuracy(epoch, lr) = k_accuracy * accuracy_of_epoch(epoch) * accuracy_of_lr(lr)\<close>.\<close>

definition accuracy :: "'w MetricWeights_scheme \<Rightarrow> real \<Rightarrow> real \<Rightarrow> npfloat" where
  "accuracy w epoch lr =
     np_mul (np_mul (Fin (k_accuracy w)) (accuracy_of_epoch epoch)) (accuracy_of_lr lr)"

text \<open>Modelled from the spec: the multivariate precision, absent from the code,
  \<open>precision(thr, epoch, lr) = k_precision * precision_of_threshold(thr) * accuracy(epoch, lr)\<close>.\<close>

definition precision :: "'w MetricWeights_scheme \<Rightarrow> real \<Rightarrow> real \<Rightarrow> real \<Rightarrow> npfloat" where
  "precision w thr epoch lr =
     np_mul (np_mul (Fin (k_precision w)) (precision_of_threshold thr)) (accuracy w epoch lr)"

text \<open>Modelled from the spec: the multivariate recall, absent from the code,
  \<open>recall(thr, epoch, lr) = k_recall * recall_of_threshold(thr) * accuracy(epoch, lr)\<close>.\<close>

definition recall :: "'w MetricWeights_scheme \<Rightarrow> real \<Rightarrow> real \<Rightarrow> real \<Rightarrow> npfloat" where
  "recall w thr epoch lr =
     np_mul (np_mul (Fin (k_recall w)) (recall_of_threshold thr)) (accuracy w epoch lr)"

text \<open>Modelled from the spec: the multivariate loss, absent from the code,
  \<open>loss(epoch, lr) = k_loss * loss_of_epoch(epoch) * loss_of_lr(lr)\<close>.\<close>

definition loss :: "'w MetricWeights_scheme \<Rightarrow> real \<Rightarrow> real \<Rightarrow> npfloat" where
  "loss w epoch lr = np_mul (np_mul (Fin (k_loss w)) (loss_of_epoch epoch)) (loss_of_lr lr)"

text \<open>Modelled from the spec: the error of the evaluator, absent from the code. A
  \<open>DomainError\<close> names the function that failed and the inputs it failed on.\<close>

datatype error = DomainError string "npfloat list"

text \<open>Modelled from the spec: the F-score, absent from the code,
  \<open>f1(precision, recall) = 2 * precision * recall / (precision + recall)\<close>, defined only when
  \<open>precision + recall \<noteq> 0\<close> and signalling a division by zero otherwise.\<close>

definition f1 :: "npfloat \<Rightarrow> npfloat \<Rightarrow> error + npfloat" where
  "f1 p r =
     (if np_add p r = Fin 0 then Inl (DomainError ''f1'' [p, r])
      else Inr (np_div (np_mul (np_mul (Fin 2) p) r) (np_add p r)))"

text \<open>Modelled from the spec: the input \<open>TuningParameters\<close> and the output \<open>MetricResult\<close>
  of one evaluation, absent from the code.\<close>

record TuningParameters =
  threshold :: real
  epoch_count :: real
  learning_rate :: real

record MetricResult =
  m_precision :: npfloat
  m_recall :: npfloat
  m_loss :: npfloat
  m_accuracy :: npfloat
  m_f1 :: npfloat

text \<open>Modelled from the spec: one evaluation of the fictitious model, absent from the code.
  It maps the tuning parameters and the weights to the four metrics and the F-score of the
  precision and the recall. A non-positive argument of a logarithm is detected and reported
  as a \<open>DomainError\<close> that names the function and the input, instead of a non-finite
  result; an error of the F-score is the outcome of the evaluation as well.\<close>

definition evaluate ::
  "'p TuningParameters_scheme \<Rightarrow> 'w MetricWeights_scheme \<Rightarrow> error + MetricResult" where
  "evaluate tp w =
     (let thr = threshold tp; epoch = epoch_count tp; lr = learning_rate tp
      in if 3 - 0.025 * epoch \<le> 0 then Inl (DomainError ''accuracy_of_epoch'' [Fin epoch])
         else if lr \<le> 0 then Inl (DomainError ''loss_of_lr'' [Fin lr])
         else if 0.9 - log 10 lr \<le> 0 then Inl (DomainError ''loss_of_lr'' [Fin lr])
         else if 0.7 - 0.5 * log 10 lr \<le> 0 then Inl (DomainError ''accuracy_of_lr'' [Fin lr])
         else
           let p = precision w thr epoch lr; r = recall w thr epoch lr
           in case f1 p r of
                Inl err \<Rightarrow> Inl err
              | Inr f \<Rightarrow>
                  Inr \<lparr>m_precision = p, m_recall = r, m_loss = loss w epoch lr,
                       m_accuracy = accuracy w epoch lr, m_f1 = f\<rparr>)"

section \<open>The search space of the tuning pipeline\<close>

text \<open>
  \<open>HyperDrive_MultiStep_Training_Pipeline.ipynb\<close> hands HyperDrive a grid: two choices for each
  of the three parameters. Grid sampling visits every combination.
\<close>

definition thr_choice :: "real list" where
  \<comment> \<open>\<open>"thr": choice(0.05, 0.20)\<close>\<close>
  "thr_choice = [0.05, 0.20]"

definition epoch_choice :: "real list" where
  \<comment> \<open>\<open>"epoch": choice(1, 20)\<close>\<close>
  "epoch_choice = [1, 20]"

definition lr_choice :: "real list" where
  \<comment> \<open>\<open>"lr": choice(0.0001, 0.001)\<close>\<close>
  "lr_choice = [0.0001, 0.001]"

definition ps :: "TuningParameters list" where
  \<comment> \<open>\<open>ps = GridParameterSampling({"thr": ..., "epoch": ..., "lr": ...})\<close>\<close>
  "ps = [\<lparr>threshold = thr, epoch_count = epoch, learning_rate = lr\<rparr>.
           thr \<leftarrow> thr_choice, epoch \<leftarrow> epoch_choice, lr \<leftarrow> lr_choice]"

section \<open>Closed forms\<close>

lemma precision_of_threshold_fin:
  "precision_of_threshold thr = Fin (0.1 + 0.9 / (1 + 5000 * exp (- 20 * thr)))"
proof -
  have "1 + 5000 * exp (- 20 * thr) > 0"
    by (simp add: add_pos_nonneg)
  then show ?thesis
    by (simp add: precision_of_threshold_def)
qed

lemma recall_of_threshold_fin:
  "recall_of_threshold thr = Fin (1 / (1 + 0.00001 * exp (20 * thr)))"
proof -
  have "1 + 0.00001 * exp (20 * thr) > 0"
    by (simp add: add_pos_nonneg)
  then show ?thesis
    by (simp add: recall_of_threshold_def)
qed

lemma loss_of_epoch_fin:
  "loss_of_epoch epoch = Fin (3 + 7 * exp (- 0.05 * epoch))"
  by (simp add: loss_of_epoch_def)

lemma accuracy_of_epoch_fin:
  assumes "0 < 3 - 0.025 * epoch"
  shows "accuracy_of_epoch epoch = Fin (0.95 - 3 * (log 10 (3 - 0.025 * epoch))\<^sup>2)"
  using assms by (simp add: accuracy_of_epoch_def np_sub_def np_square_def power2_eq_square)

lemma loss_of_lr_fin:
  assumes "0 < lr" and "log 10 lr < 0.9"
  shows "loss_of_lr lr = Fin (0.6 + (log 10 (0.9 - log 10 lr))\<^sup>2)"
  using assms by (simp add: loss_of_lr_def np_sub_def np_square_def power2_eq_square)

lemma accuracy_of_lr_fin:
  assumes "0 < lr" and "0.5 * log 10 lr < 0.7"
  shows "accuracy_of_lr lr = Fin (0.98 - (log 10 (0.7 - 0.5 * log 10 lr))\<^sup>2)"
  using assms by (simp add: accuracy_of_lr_def np_sub_def np_square_def power2_eq_square)

section \<open>The curves and their closed forms\<close>

lemma log10_below:
  fixes x c :: real
  assumes "0 < x" "x \<le> c" "0 < n" "c ^ n < 10 ^ m"
  shows "real n * log 10 x < real m"
proof -
  have c: "0 < c" using assms by linarith
  have "log 10 x \<le> log 10 c" using assms c by simp
  then have "real n * log 10 x \<le> real n * log 10 c"
    by (intro mult_left_mono) simp_all
  also have "\<dots> = log 10 (c ^ n)" using c by (simp add: log_nat_power)
  also have "\<dots> < log 10 (10 ^ m)" using assms c by (intro log_less) simp_all
  also have "\<dots> = real m" by simp
  finally show ?thesis .
qed

lemma log10_above:
  fixes x c :: real
  assumes "0 < c" "c \<le> x" "10 ^ m < c ^ n"
  shows "real m < real n * log 10 x"
proof -
  have x: "0 < x" using assms by linarith
  have "real m = log 10 (10 ^ m)" by simp
  also have "\<dots> < log 10 (c ^ n)" using assms by (intro log_less) simp_all
  also have "\<dots> = real n * log 10 c" using assms by (simp add: log_nat_power)
  also have "\<dots> \<le> real n * log 10 x"
    using assms x by (intro mult_left_mono) simp_all
  finally show ?thesis .
qed

lemma loss_of_lr_domain_below:
  assumes "0 < lr" "lr \<le> 7.94"
  shows "log 10 lr < 0.9"
proof -
  have "(7.94::real) ^ 10 < 10 ^ 9" by (simp add: power_divide)
  from log10_below [OF assms _ this] show ?thesis by simp
qed

lemma loss_of_lr_domain_above:
  assumes "7.95 \<le> lr"
  shows "0.9 < log 10 lr"
proof -
  have "(10::real) ^ 9 < 7.95 ^ 10" by (simp add: power_divide)
  from log10_above [OF _ assms this] show ?thesis by simp
qed

lemma accuracy_of_lr_domain_below:
  assumes "0 < lr" "lr \<le> 25.1"
  shows "0.5 * log 10 lr < 0.7"
proof -
  have "(25.1::real) ^ 5 < 10 ^ 7" by (simp add: power_divide)
  from log10_below [OF assms _ this] show ?thesis by simp
qed

lemma accuracy_of_lr_domain_above:
  assumes "25.2 \<le> lr"
  shows "0.7 < 0.5 * log 10 lr"
proof -
  have "(10::real) ^ 7 < 25.2 ^ 5" by (simp add: power_divide)
  from log10_above [OF _ assms this] show ?thesis by simp
qed



section \<open>Shape of the threshold curves\<close>

lemma frac_below:
  fixes c d :: real
  assumes "0 < c" and "1 < d"
  shows "0 < c / d \<and> c / d < c"
proof -
  have "0 < d" using assms by simp
  moreover have "c * 1 < c * d" using assms by (intro mult_strict_left_mono) simp_all
  ultimately show ?thesis using assms by (simp add: pos_divide_less_eq)
qed

lemma precision_of_threshold_increasing:
  assumes "thr1 < thr2"
  shows "np_less (precision_of_threshold thr1) (precision_of_threshold thr2)"
proof -
  have e: "exp (- 20 * thr2) < exp (- 20 * thr1)" using assms by simp
  have p2: "0 < 1 + 5000 * exp (- 20 * thr2)" by (simp add: add_pos_nonneg)
  have "1 + 5000 * exp (- 20 * thr2) < 1 + 5000 * exp (- 20 * thr1)" using e by simp
  then have "0.9 / (1 + 5000 * exp (- 20 * thr1)) < 0.9 / (1 + 5000 * exp (- 20 * thr2))"
    using p2 by (simp add: frac_less2)
  then show ?thesis by (simp add: precision_of_threshold_fin)
qed

lemma precision_of_threshold_bounds:
  "np_less (Fin 0.1) (precision_of_threshold thr) \<and> np_less (precision_of_threshold thr) (Fin 1)"
proof -
  have "1 < 1 + 5000 * exp (- 20 * thr)" by simp
  from frac_below [OF _ this, of "0.9"]
  show ?thesis by (simp add: precision_of_threshold_fin)
qed

lemma recall_of_threshold_decreasing:
  assumes "thr1 < thr2"
  shows "np_less (recall_of_threshold thr2) (recall_of_threshold thr1)"
proof -
  have e: "exp (20 * thr1) < exp (20 * thr2)" using assms by simp
  have p1: "0 < 1 + 0.00001 * exp (20 * thr1)" by (simp add: add_pos_nonneg)
  have "1 + 0.00001 * exp (20 * thr1) < 1 + 0.00001 * exp (20 * thr2)" using e by simp
  then have "1 / (1 + 0.00001 * exp (20 * thr2)) < 1 / (1 + 0.00001 * exp (20 * thr1))"
    using p1 by (simp add: frac_less2)
  then show ?thesis by (simp add: recall_of_threshold_fin)
qed

lemma recall_of_threshold_bounds:
  "np_less (Fin 0) (recall_of_threshold thr) \<and> np_less (recall_of_threshold thr) (Fin 1)"
proof -
  have "1 < 1 + 0.00001 * exp (20 * thr)" by simp
  from frac_below [OF _ this, of 1]
  show ?thesis by (simp add: recall_of_threshold_fin)
qed

lemma b64_round_binade_4:
  assumes "16 \<le> \<bar>x\<bar>" "\<bar>x\<bar> < 32"
    and n: "round_half_even (x / (1 / 2 ^ 48)) = n"
    and b: "\<bar>real_of_int n * (1 / 2 ^ 48)\<bar> \<le> 32"
  shows "b64_round x = Fin (real_of_int n * (1 / 2 ^ 48))"
proof -
  have nz: "x \<noteq> 0" using assms by auto
  have "2 powr (of_int 4) \<le> \<bar>x\<bar> \<and> \<bar>x\<bar> < 2 powr (of_int (4 + 1))"
    using assms by (simp add: powr_numeral)
  then have fl: "\<lfloor>log 2 \<bar>x\<bar>\<rfloor> = 4"
    using floor_log_eq_powr_iff [of "\<bar>x\<bar>" 2 4] nz by simp
  have q: "(2::real) powr (of_int (max 4 (- 1022)) - 52) = 1 / 2 ^ 48"
  proof -
    have "(2::real) powr (- 48) = 1 / 2 powr 48" by (simp add: powr_minus_divide)
    also have "\<dots> = 1 / 2 ^ 48" by (simp add: powr_numeral)
    finally show ?thesis by simp
  qed
  have "(2::real) ^ 5 < 2 ^ 1024" by (rule power_strict_increasing) simp_all
  then have big: "\<not> (2::real) ^ 1024 \<le> \<bar>real_of_int n * (1 / 2 ^ 48)\<bar>"
    using b by simp
  show ?thesis
    unfolding b64_round_def Let_def fl q n using nz big by (simp only: if_False)
qed

lemma round_half_even_lower:
  "round_half_even (- 20 * (7 / 8 + 1 / 2 ^ 53) / (1 / 2 ^ 48)) = - (35 * 2 ^ 47 + 1)"
  by (simp add: round_half_even_def Let_def)

lemma round_half_even_upper:
  "round_half_even (- 20 * (7 / 8 + 1 / 2 ^ 52) / (1 / 2 ^ 48)) = - (35 * 2 ^ 47 + 1)"
  by (simp add: round_half_even_def Let_def)

lemma b64_product_lower:
  "b64_round (- 20 * (7 / 8 + 1 / 2 ^ 53)) = Fin (- (35 / 2 + 1 / 2 ^ 48))"
proof -
  have "b64_round (- 20 * (7 / 8 + 1 / 2 ^ 53))
      = Fin (real_of_int (- (35 * 2 ^ 47 + 1)) * (1 / 2 ^ 48))"
    by (rule b64_round_binade_4 [OF _ _ round_half_even_lower]) simp_all
  then show ?thesis by simp
qed

lemma b64_product_upper:
  "b64_round (- 20 * (7 / 8 + 1 / 2 ^ 52)) = Fin (- (35 / 2 + 1 / 2 ^ 48))"
proof -
  have "b64_round (- 20 * (7 / 8 + 1 / 2 ^ 52))
      = Fin (real_of_int (- (35 * 2 ^ 47 + 1)) * (1 / 2 ^ 48))"
    by (rule b64_round_binade_4 [OF _ _ round_half_even_upper]) simp_all
  then show ?thesis by simp
qed

lemma precision_of_threshold_b64_tie:
  "precision_of_threshold_b64 (7 / 8 + 1 / 2 ^ 53) = precision_of_threshold_b64 (7 / 8 + 1 / 2 ^ 52)"
  unfolding precision_of_threshold_b64_def np_mul.simps b64.simps
    b64_product_lower b64_product_upper ..

lemma np_less_irrefl: "\<not> np_less x x"
  by (cases x) simp_all

lemma precision_of_threshold_separated:
  assumes "thr1 + 0.001 \<le> thr2"
  shows "np_less (precision_of_threshold thr1) (precision_of_threshold thr2)"
  using assms by (intro precision_of_threshold_increasing) simp

lemma recall_of_threshold_separated:
  assumes "thr1 + 0.001 \<le> thr2"
  shows "np_less (recall_of_threshold thr2) (recall_of_threshold thr1)"
  using assms by (intro recall_of_threshold_decreasing) simp

text \<open>
  Claim C6, as stated, fails: strict monotonicity does not survive rounding. The thresholds
  \<open>7/8 + 2^(-53)\<close> and \<open>7/8 + 2^(-52)\<close> are neighbouring binary64 numbers of \<open>[0, 1]\<close>;
  the products \<open>-20 * thr\<close> of both round to the same binary64 number, so the precision
  computed for the larger threshold is not above the one computed for the smaller, whatever
  the library's \<open>exp\<close> returns for that product.
\<close>

theorem precision_of_threshold_strict_counterexample:
  "(0::real) \<le> 7 / 8 + 1 / 2 ^ 53 \<and> (7 / 8 + 1 / 2 ^ 53 :: real) < 7 / 8 + 1 / 2 ^ 52
   \<and> (7 / 8 + 1 / 2 ^ 52 :: real) \<le> 1
   \<and> \<not> np_less (precision_of_threshold_b64 (7 / 8 + 1 / 2 ^ 53))
               (precision_of_threshold_b64 (7 / 8 + 1 / 2 ^ 52))"
proof -
  have "(0::real) \<le> 7 / 8 + 1 / 2 ^ 53" "(7 / 8 + 1 / 2 ^ 53 :: real) < 7 / 8 + 1 / 2 ^ 52"
    "(7 / 8 + 1 / 2 ^ 52 :: real) \<le> 1" by simp_all
  moreover have "\<not> np_less (precision_of_threshold_b64 (7 / 8 + 1 / 2 ^ 53))
                        (precision_of_threshold_b64 (7 / 8 + 1 / 2 ^ 52))"
    unfolding precision_of_threshold_b64_tie by (rule np_less_irrefl)
  ultimately show ?thesis by blast
qed

text \<open>
  Claim C6, amended. For every \<open>thr\<close> in \<open>[0, 1]\<close>, \<open>precision_of_threshold thr\<close> lies
  strictly between 0.1 and 1 and \<open>recall_of_threshold thr\<close> strictly between 0 and 1; between
  two thresholds of \<open>[0, 1]\<close> that are at least 0.001 apart the precision strictly increases
  and the recall strictly decreases.
\<close>

theorem threshold_curves_monotone_bounded:
  "(0 \<le> thr \<and> thr \<le> 1 \<longrightarrow>
      np_less (Fin 0.1) (precision_of_threshold thr) \<and> np_less (precision_of_threshold thr) (Fin 1)
      \<and> np_less (Fin 0) (recall_of_threshold thr) \<and> np_less (recall_of_threshold thr) (Fin 1))
   \<and> (0 \<le> thr1 \<and> thr1 + 0.001 \<le> thr2 \<and> thr2 \<le> 1 \<longrightarrow>
      np_less (precision_of_threshold thr1) (precision_of_threshold thr2)
      \<and> np_less (recall_of_threshold thr2) (recall_of_threshold thr1))"
  using precision_of_threshold_bounds [of thr] recall_of_threshold_bounds [of thr]
    precision_of_threshold_separated [of thr1 thr2] recall_of_threshold_separated [of thr1 thr2]
  by blast

theorem threshold_curves_monotone_bounded_witness:
  "(0::real) \<le> 0.5 \<and> (0.5::real) \<le> 1 \<and> (0::real) \<le> 0.05 \<and> (0.05::real) + 0.001 \<le> 0.2
   \<and> (0.2::real) \<le> 1
   \<and> np_less (Fin 0.1) (precision_of_threshold 0.5) \<and> np_less (precision_of_threshold 0.5) (Fin 1)
   \<and> np_less (Fin 0) (recall_of_threshold 0.5) \<and> np_less (recall_of_threshold 0.5) (Fin 1)
   \<and> np_less (precision_of_threshold 0.05) (precision_of_threshold 0.2)
   \<and> np_less (recall_of_threshold 0.2) (recall_of_threshold 0.05)"
  using threshold_curves_monotone_bounded [of "0.5" "0.05" "0.2"] by simp

section \<open>Shape of the epoch curves\<close>

lemma accuracy_of_epoch_80: "accuracy_of_epoch 80 = Fin 0.95"
  using accuracy_of_epoch_fin [of 80] by simp

lemma accuracy_of_epoch_below_peak:
  assumes "0 \<le> e" "e \<le> 119" "e \<noteq> 80"
  shows "np_less (accuracy_of_epoch e) (accuracy_of_epoch 80)"
proof -
  have pos: "0 < 3 - 0.025 * e" using assms by simp
  have "3 - 0.025 * e < 1 \<or> 1 < 3 - 0.025 * e" using assms by auto
  then have "log 10 (3 - 0.025 * e) < 0 \<or> 0 < log 10 (3 - 0.025 * e)"
    using pos by simp
  then have "log 10 (3 - 0.025 * e) \<noteq> 0" by auto
  then have "0 < (log 10 (3 - 0.025 * e))\<^sup>2" by simp
  then show ?thesis using pos by (simp add: accuracy_of_epoch_fin accuracy_of_epoch_80)
qed

lemma accuracy_of_epoch_not_above_peak:
  assumes "0 \<le> x" "x \<le> 119"
  shows "\<not> np_less (accuracy_of_epoch 80) (accuracy_of_epoch x)"
proof (cases "x = 80")
  case True
  then show ?thesis by (simp add: np_less_irrefl)
next
  case False
  have pos: "0 < 3 - 0.025 * x" using assms by simp
  from accuracy_of_epoch_below_peak [OF assms False] show ?thesis
    by (simp add: accuracy_of_epoch_fin [OF pos] accuracy_of_epoch_80)
qed

lemma accuracy_of_epoch_below_peak_nat:
  assumes "e \<le> 119" "e \<noteq> 80"
  shows "np_less (accuracy_of_epoch (real e)) (accuracy_of_epoch (real (80::nat)))"
  using accuracy_of_epoch_below_peak [of "real e"] assms by simp

lemma accuracy_of_epoch_peak_unique_nat:
  assumes m: "m \<le> 119"
    and best: "\<forall>e::nat. e \<le> 119 \<and> e \<noteq> m \<longrightarrow>
                 np_less (accuracy_of_epoch (real e)) (accuracy_of_epoch (real m))"
  shows "m = 80"
proof (rule ccontr)
  assume ne: "m \<noteq> 80"
  from best have "(80::nat) \<le> 119 \<and> 80 \<noteq> m \<longrightarrow>
      np_less (accuracy_of_epoch (real (80::nat))) (accuracy_of_epoch (real m))" by blast
  then have a: "np_less (accuracy_of_epoch 80) (accuracy_of_epoch (real m))"
    using ne by simp
  have "\<not> np_less (accuracy_of_epoch 80) (accuracy_of_epoch (real m))"
    using accuracy_of_epoch_not_above_peak [of "real m"] m by simp
  with a show False by simp
qed

text \<open>
  Claim C7. Over the whole epochs \<open>0, 1, \<dots>, 119\<close> \<open>accuracy_of_epoch\<close> has a single
  maximum, and it is interior: there is an epoch \<open>m\<close> with \<open>0 < m < 119\<close> whose accuracy is
  strictly above the accuracy of every other whole epoch of the interval, and every whole
  epoch of the closed interval with that property (an endpoint included) is \<open>m\<close>. No epoch of
  the real interval \<open>[0, 119]\<close> has an accuracy above the one of \<open>m\<close>.
\<close>

theorem accuracy_of_epoch_single_interior_maximum:
  "\<exists>m::nat. 0 < m \<and> m < 119
     \<and> (\<forall>e::nat. e \<le> 119 \<and> e \<noteq> m \<longrightarrow>
            np_less (accuracy_of_epoch (real e)) (accuracy_of_epoch (real m)))
     \<and> (\<forall>m'::nat. m' \<le> 119
            \<and> (\<forall>e::nat. e \<le> 119 \<and> e \<noteq> m' \<longrightarrow>
                   np_less (accuracy_of_epoch (real e)) (accuracy_of_epoch (real m')))
          \<longrightarrow> m' = m)
     \<and> (\<forall>x::real. 0 \<le> x \<and> x \<le> 119 \<longrightarrow>
            \<not> np_less (accuracy_of_epoch (real m)) (accuracy_of_epoch x))"
proof (intro exI [of _ 80] conjI allI impI)
  fix e :: nat
  assume "e \<le> 119 \<and> e \<noteq> 80"
  then show "np_less (accuracy_of_epoch (real e)) (accuracy_of_epoch (real (80::nat)))"
    using accuracy_of_epoch_below_peak_nat by simp
next
  fix m' :: nat
  assume "m' \<le> 119
    \<and> (\<forall>e::nat. e \<le> 119 \<and> e \<noteq> m' \<longrightarrow>
           np_less (accuracy_of_epoch (real e)) (accuracy_of_epoch (real m')))"
  then show "m' = 80"
    using accuracy_of_epoch_peak_unique_nat [of m'] by blast
next
  fix x :: real
  assume "0 \<le> x \<and> x \<le> 119"
  then show "\<not> np_less (accuracy_of_epoch (real (80::nat))) (accuracy_of_epoch x)"
    using accuracy_of_epoch_not_above_peak [of x] by simp
qed simp_all

theorem accuracy_of_epoch_single_interior_maximum_witness:
  "np_less (accuracy_of_epoch 0) (accuracy_of_epoch 80)
   \<and> np_less (accuracy_of_epoch 119) (accuracy_of_epoch 80)"
proof -
  obtain m :: nat where m: "0 < m" "m < 119"
      "\<forall>e::nat. e \<le> 119 \<and> e \<noteq> m \<longrightarrow>
          np_less (accuracy_of_epoch (real e)) (accuracy_of_epoch (real m))"
      "\<forall>m'::nat. m' \<le> 119
            \<and> (\<forall>e::nat. e \<le> 119 \<and> e \<noteq> m' \<longrightarrow>
                   np_less (accuracy_of_epoch (real e)) (accuracy_of_epoch (real m')))
          \<longrightarrow> m' = m"
    using accuracy_of_epoch_single_interior_maximum by blast
  have "\<forall>e::nat. e \<le> 119 \<and> e \<noteq> 80 \<longrightarrow>
          np_less (accuracy_of_epoch (real e)) (accuracy_of_epoch (real (80::nat)))"
    using accuracy_of_epoch_below_peak_nat by simp
  then have "80 = m" using m(4) by simp
  then have "np_less (accuracy_of_epoch (real (0::nat))) (accuracy_of_epoch (real (80::nat)))"
    "np_less (accuracy_of_epoch (real (119::nat))) (accuracy_of_epoch (real (80::nat)))"
    using m(3) by auto
  then show ?thesis by simp
qed

lemma loss_of_epoch_decreasing:
  assumes "e1 < e2"
  shows "np_less (loss_of_epoch e2) (loss_of_epoch e1)"
  using assms by (simp add: loss_of_epoch_fin)

lemma loss_of_epoch_above: "np_less (Fin 3) (loss_of_epoch e)"
  by (simp add: loss_of_epoch_fin)

lemma exp_10_lower: "7000 < exp (10::real)"
proof -
  have "(2.5::real) \<le> exp 1"
    using exp_lower_Taylor_quadratic [of "1::real"] by simp
  then have "(2.5::real) ^ 10 \<le> exp 1 ^ 10"
    by (intro power_mono) simp_all
  moreover have "exp (1::real) ^ 10 = exp 10"
    using exp_of_nat_mult [of 10 "1::real"] by simp
  moreover have "(7000::real) < 2.5 ^ 10" by (simp add: power_divide)
  ultimately show ?thesis by linarith
qed

lemma loss_of_epoch_200: "np_less (loss_of_epoch 200) (Fin 3.001)"
proof -
  have "exp (- 10 :: real) = 1 / exp 10" by (simp add: exp_minus field_simps)
  also have "\<dots> < 1 / 7000"
    using exp_10_lower by (intro divide_strict_left_mono) simp_all
  finally have "7 * exp (- 10 :: real) < 0.001" by simp
  then show ?thesis by (simp add: loss_of_epoch_fin)
qed

lemma loss_of_epoch_limit:
  assumes "0 < eps"
  shows "\<exists>N. \<forall>e\<ge>N. \<exists>v. loss_of_epoch e = Fin v \<and> \<bar>v - 3\<bar> < eps"
proof (rule exI [of _ "- 20 * ln (eps / 7) + 1"], intro allI impI)
  fix e :: real
  assume "- 20 * ln (eps / 7) + 1 \<le> e"
  then have "- 0.05 * e < ln (eps / 7)" by simp
  then have "exp (- 0.05 * e) < exp (ln (eps / 7))" by (simp only: exp_less_cancel_iff)
  then have "exp (- 0.05 * e) < eps / 7" using assms by simp
  then have "\<bar>(3 + 7 * exp (- 0.05 * e)) - 3\<bar> < eps" by simp
  then show "\<exists>v. loss_of_epoch e = Fin v \<and> \<bar>v - 3\<bar> < eps"
    using loss_of_epoch_fin [of e] by blast
qed

text \<open>
  Claim C8. \<open>loss_of_epoch 0\<close> is exactly 10; the loss strictly decreases as the epoch grows,
  stays above 3 and comes within any positive distance of 3 for all large enough epochs; and
  \<open>loss_of_epoch 200\<close> is below 3.001.
\<close>

theorem loss_of_epoch_decay:
  "loss_of_epoch 0 = Fin 10
   \<and> (\<forall>e1 e2. e1 < e2 \<longrightarrow> np_less (loss_of_epoch e2) (loss_of_epoch e1))
   \<and> (\<forall>e. np_less (Fin 3) (loss_of_epoch e))
   \<and> (\<forall>eps>0. \<exists>N. \<forall>e\<ge>N. \<exists>v. loss_of_epoch e = Fin v \<and> \<bar>v - 3\<bar> < eps)
   \<and> np_less (loss_of_epoch 200) (Fin 3.001)"
proof (intro conjI allI impI)
  show "loss_of_epoch 0 = Fin 10" by (simp add: loss_of_epoch_fin)
qed (simp_all only: loss_of_epoch_decreasing loss_of_epoch_above loss_of_epoch_limit
       loss_of_epoch_200)

theorem loss_of_epoch_decay_witness:
  "(0::real) < 200 \<and> np_less (loss_of_epoch 200) (loss_of_epoch 0)
   \<and> (\<exists>e v. loss_of_epoch e = Fin v \<and> \<bar>v - 3\<bar> < 1)"
proof -
  have "\<forall>e1 e2. e1 < e2 \<longrightarrow> np_less (loss_of_epoch e2) (loss_of_epoch e1)"
    using loss_of_epoch_decay by blast
  then have mono: "np_less (loss_of_epoch 200) (loss_of_epoch 0)"
    by simp
  have "\<forall>eps>0. \<exists>N. \<forall>e\<ge>N. \<exists>v. loss_of_epoch e = Fin v \<and> \<bar>v - 3\<bar> < eps"
    using loss_of_epoch_decay by blast
  then have "\<exists>N. \<forall>e\<ge>N. \<exists>v. loss_of_epoch e = Fin v \<and> \<bar>v - 3\<bar> < 1"
    by simp
  then obtain N where "\<forall>e\<ge>N. \<exists>v. loss_of_epoch e = Fin v \<and> \<bar>v - 3\<bar> < 1" ..
  then have "\<exists>v. loss_of_epoch N = Fin v \<and> \<bar>v - 3\<bar> < 1" by simp
  then show ?thesis using mono by auto
qed

section \<open>Outside the domain\<close>

text \<open>
  The notebook guards none of its logarithms. Where an argument of \<open>np.log10\<close> is zero or
  negative the expression still returns: the special value travels through the remaining
  arithmetic and comes out as \<open>inf\<close>, \<open>-inf\<close> or \<open>nan\<close>.
\<close>

lemma accuracy_of_epoch_finite_iff:
  "is_finite (accuracy_of_epoch e) \<longleftrightarrow> 0 < 3 - 0.025 * e"
  by (simp add: accuracy_of_epoch_def np_sub_def np_square_def inf_times_def)

lemma loss_of_lr_finite_iff:
  "is_finite (loss_of_lr lr) \<longleftrightarrow> 0 < lr \<and> log 10 lr < 0.9"
  by (simp add: loss_of_lr_def np_sub_def np_square_def inf_times_def)

lemma accuracy_of_lr_finite_iff:
  "is_finite (accuracy_of_lr lr) \<longleftrightarrow> 0 < lr \<and> 0.5 * log 10 lr < 0.7"
  by (simp add: accuracy_of_lr_def np_sub_def np_square_def inf_times_def)

lemma accuracy_of_epoch_at_120: "accuracy_of_epoch 120 = NInf"
  by (simp add: accuracy_of_epoch_def np_sub_def np_square_def inf_times_def)

lemma loss_of_lr_above_boundary:
  assumes "7.95 \<le> lr"
  shows "loss_of_lr lr = NaN"
proof -
  have pos: "0 < lr" using assms by simp
  have "0.9 < log 10 lr" using assms by (rule loss_of_lr_domain_above)
  then show ?thesis using pos
    by (simp add: loss_of_lr_def np_sub_def np_square_def inf_times_def)
qed

lemma loss_of_lr_below_boundary:
  assumes "0 < lr" "lr \<le> 7.94"
  shows "\<exists>v. loss_of_lr lr = Fin v"
  using loss_of_lr_fin [of lr] loss_of_lr_domain_below [of lr] assms by blast

lemma loss_of_lr_not_finite_outside:
  assumes "lr \<le> 0 \<or> 7.95 \<le> lr"
  shows "\<not> is_finite (loss_of_lr lr)"
  using assms loss_of_lr_domain_above [of lr] by (auto simp add: loss_of_lr_finite_iff)

lemma accuracy_of_lr_not_finite_outside:
  assumes "lr \<le> 0 \<or> 25.2 \<le> lr"
  shows "\<not> is_finite (accuracy_of_lr lr)"
  using assms accuracy_of_lr_domain_above [of lr] by (auto simp add: accuracy_of_lr_finite_iff)

text \<open>
  Claim C3, as stated, fails: at \<open>epoch = 120\<close> the argument of the logarithm is zero, no
  error is reported and \<open>accuracy_of_epoch\<close> returns the non-finite value \<open>-inf\<close>.
\<close>

theorem accuracy_of_epoch_domain_counterexample:
  "accuracy_of_epoch 120 = NInf \<and> \<not> is_finite (accuracy_of_epoch 120)"
  by (simp add: accuracy_of_epoch_at_120)

text \<open>
  Claim C3, amended. Every univariate metric function returns a value and reports no error.
  The value is a finite real for an input inside the documented bounds and clear of their
  boundary: for every \<open>thr\<close> in the case of \<open>precision_of_threshold\<close> and
  \<open>recall_of_threshold\<close>, for \<open>epoch \<ge> 0\<close> in the case of \<open>loss_of_epoch\<close>, for
  \<open>epoch \<le> 119\<close> in the case of \<open>accuracy_of_epoch\<close>, for \<open>0 < lr \<le> 7.94\<close> in the case
  of \<open>loss_of_lr\<close> and for \<open>0 < lr \<le> 25.1\<close> in the case of \<open>accuracy_of_lr\<close>. The value is
  \<open>inf\<close>, \<open>-inf\<close> or \<open>nan\<close> for an input beyond the bounds: \<open>epoch \<ge> 120\<close> for
  \<open>accuracy_of_epoch\<close>, \<open>lr \<le> 0\<close> or \<open>lr \<ge> 7.95\<close> for \<open>loss_of_lr\<close>, \<open>lr \<le> 0\<close> or
  \<open>lr \<ge> 25.2\<close> for \<open>accuracy_of_lr\<close>.
\<close>

theorem univariate_finite_inside_silent_outside:
  "is_finite (precision_of_threshold thr)
   \<and> is_finite (recall_of_threshold thr)
   \<and> (0 \<le> epoch \<longrightarrow> is_finite (loss_of_epoch epoch))
   \<and> (epoch \<le> 119 \<longrightarrow> is_finite (accuracy_of_epoch epoch))
   \<and> (120 \<le> epoch \<longrightarrow> \<not> is_finite (accuracy_of_epoch epoch))
   \<and> (0 < lr \<and> lr \<le> 7.94 \<longrightarrow> is_finite (loss_of_lr lr))
   \<and> (lr \<le> 0 \<or> 7.95 \<le> lr \<longrightarrow> \<not> is_finite (loss_of_lr lr))
   \<and> (0 < lr \<and> lr \<le> 25.1 \<longrightarrow> is_finite (accuracy_of_lr lr))
   \<and> (lr \<le> 0 \<or> 25.2 \<le> lr \<longrightarrow> \<not> is_finite (accuracy_of_lr lr))"
proof (intro conjI impI)
  assume "0 < lr \<and> lr \<le> 7.94"
  then show "is_finite (loss_of_lr lr)"
    using loss_of_lr_domain_below [of lr] by (simp add: loss_of_lr_finite_iff)
next
  assume "0 < lr \<and> lr \<le> 25.1"
  then show "is_finite (accuracy_of_lr lr)"
    using accuracy_of_lr_domain_below [of lr] by (simp add: accuracy_of_lr_finite_iff)
next
  assume "lr \<le> 0 \<or> 7.95 \<le> lr"
  then show "\<not> is_finite (loss_of_lr lr)" by (rule loss_of_lr_not_finite_outside)
next
  assume "lr \<le> 0 \<or> 25.2 \<le> lr"
  then show "\<not> is_finite (accuracy_of_lr lr)" by (rule accuracy_of_lr_not_finite_outside)
qed (simp_all add: precision_of_threshold_fin recall_of_threshold_fin loss_of_epoch_fin
       accuracy_of_epoch_finite_iff)

theorem univariate_finite_inside_silent_outside_witness:
  "(0::real) \<le> 20 \<and> (20::real) \<le> 119 \<and> (0::real) < 1 \<and> (1::real) \<le> 7.94 \<and> (1::real) \<le> 25.1
   \<and> (120::real) \<le> 200 \<and> (7.95::real) \<le> 30 \<and> (25.2::real) \<le> 30
   \<and> is_finite (precision_of_threshold 0.5) \<and> is_finite (recall_of_threshold 0.5)
   \<and> is_finite (loss_of_epoch 20) \<and> is_finite (accuracy_of_epoch 20)
   \<and> is_finite (loss_of_lr 1) \<and> is_finite (accuracy_of_lr 1)
   \<and> \<not> is_finite (accuracy_of_epoch 200)
   \<and> \<not> is_finite (loss_of_lr 30) \<and> \<not> is_finite (accuracy_of_lr 30)"
  using univariate_finite_inside_silent_outside [of "0.5" 20 1]
    univariate_finite_inside_silent_outside [of "0.5" 200 30]
  by simp

text \<open>
  Claim C5, as stated, fails: above the boundary, at \<open>lr = 8\<close>, no error is reported and
  \<open>loss_of_lr\<close> returns \<open>nan\<close>.
\<close>

theorem loss_of_lr_boundary_counterexample:
  "loss_of_lr 8 = NaN \<and> \<not> is_finite (loss_of_lr 8)"
  using loss_of_lr_above_boundary [of 8] by simp

text \<open>
  Claim C5, amended. \<open>loss_of_lr\<close> reports no error on either side of the boundary
  \<open>lr = 10^0.9\<close>, which lies between 7.94 and 7.95: for every \<open>lr\<close> with \<open>0 < lr \<le> 7.94\<close> it
  returns a finite real, and for every \<open>lr \<ge> 7.95\<close> it returns \<open>nan\<close>.
\<close>

theorem loss_of_lr_boundary:
  "(7.94::real) < 10 powr 0.9 \<and> (10::real) powr 0.9 < 7.95
   \<and> (0 < lr \<and> lr \<le> 7.94 \<longrightarrow> (\<exists>v. loss_of_lr lr = Fin v))
   \<and> (7.95 \<le> lr \<longrightarrow> loss_of_lr lr = NaN)"
proof -
  have "log 10 (7.94::real) < 0.9" by (rule loss_of_lr_domain_below) simp_all
  then have a: "(7.94::real) < 10 powr 0.9"
    using log_less_iff [of 10 "7.94" "0.9"] by simp
  have "0.9 < log 10 (7.95::real)" by (rule loss_of_lr_domain_above) simp
  then have b: "(10::real) powr 0.9 < 7.95"
    using less_log_iff [of 10 "7.95" "0.9"] by simp
  show ?thesis
    using a b loss_of_lr_below_boundary [of lr] loss_of_lr_above_boundary [of lr] by blast
qed

theorem loss_of_lr_boundary_witness:
  "(0::real) < 1 \<and> (1::real) \<le> 7.94 \<and> (7.95::real) \<le> 10
   \<and> (\<exists>v. loss_of_lr 1 = Fin v) \<and> loss_of_lr 10 = NaN"
  using loss_of_lr_boundary [of 1] loss_of_lr_boundary [of 10] by simp

section \<open>The multivariate metrics\<close>

text \<open>
  Claim C2. On the domain of the univariate curves each of them yields a finite value, and
  the multivariate metrics are the weighted products of these values:
  \<open>accuracy = k_accuracy * accuracy_of_epoch * accuracy_of_lr\<close>,
  \<open>precision = k_precision * precision_of_threshold * accuracy\<close>,
  \<open>recall = k_recall * recall_of_threshold * accuracy\<close> and
  \<open>loss = k_loss * loss_of_epoch * loss_of_lr\<close>; every default weight is 1.
\<close>

theorem multivariate_products:
  assumes "0 < 3 - 0.025 * epoch" "0 < lr" "log 10 lr < 0.9" "0.5 * log 10 lr < 0.7"
  shows "\<exists>pt rt le ae ll al.
     precision_of_threshold thr = Fin pt \<and> recall_of_threshold thr = Fin rt
     \<and> loss_of_epoch epoch = Fin le \<and> accuracy_of_epoch epoch = Fin ae
     \<and> loss_of_lr lr = Fin ll \<and> accuracy_of_lr lr = Fin al
     \<and> accuracy w epoch lr = Fin (k_accuracy w * ae * al)
     \<and> precision w thr epoch lr = Fin (k_precision w * pt * (k_accuracy w * ae * al))
     \<and> recall w thr epoch lr = Fin (k_recall w * rt * (k_accuracy w * ae * al))
     \<and> loss w epoch lr = Fin (k_loss w * le * ll)
     \<and> k_accuracy default_weights = 1 \<and> k_precision default_weights = 1
     \<and> k_recall default_weights = 1 \<and> k_loss default_weights = 1"
  using assms
  by (simp add: accuracy_def precision_def recall_def loss_def default_weights_def
      precision_of_threshold_fin recall_of_threshold_fin loss_of_epoch_fin
      accuracy_of_epoch_fin loss_of_lr_fin accuracy_of_lr_fin)

theorem multivariate_products_witness:
  "(0::real) < 3 - 0.025 * 80 \<and> (0::real) < 1 \<and> log 10 (1::real) < 0.9
   \<and> 0.5 * log 10 (1::real) < 0.7
   \<and> (\<exists>pt rt le ae ll al.
     precision_of_threshold 0 = Fin pt \<and> recall_of_threshold 0 = Fin rt
     \<and> loss_of_epoch 80 = Fin le \<and> accuracy_of_epoch 80 = Fin ae
     \<and> loss_of_lr 1 = Fin ll \<and> accuracy_of_lr 1 = Fin al
     \<and> accuracy default_weights 80 1 = Fin (ae * al)
     \<and> precision default_weights 0 80 1 = Fin (pt * (ae * al))
     \<and> recall default_weights 0 80 1 = Fin (rt * (ae * al))
     \<and> loss default_weights 80 1 = Fin (le * ll))"
proof -
  have h: "(0::real) < 3 - 0.025 * 80" "(0::real) < 1" "log 10 (1::real) < 0.9"
    "0.5 * log 10 (1::real) < 0.7" by simp_all
  show ?thesis
    using h multivariate_products [OF h, of 0 default_weights]
    by (simp add: default_weights_def)
qed

section \<open>The F-score\<close>

lemma f1_fin:
  "f1 (Fin p) (Fin r) =
     (if p + r = 0 then Inl (DomainError ''f1'' [Fin p, Fin r])
      else Inr (Fin (2 * p * r / (p + r))))"
  by (simp add: f1_def)

text \<open>
  Claim C4. \<open>f1 p p = p\<close> for every \<open>p > 0\<close>; \<open>f1 p r\<close> is defined, with value
  \<open>2 * p * r / (p + r)\<close>, for every pair with \<open>p + r \<noteq> 0\<close>; and \<open>f1\<close> signals a
  \<open>DomainError\<close> exactly when \<open>p + r = 0\<close>, in particular when \<open>p = r = 0\<close>.
\<close>

theorem f1_properties:
  "(0 < p \<longrightarrow> f1 (Fin p) (Fin p) = Inr (Fin p))
   \<and> (p + r \<noteq> 0 \<longrightarrow> f1 (Fin p) (Fin r) = Inr (Fin (2 * p * r / (p + r))))
   \<and> ((\<exists>e. f1 (Fin p) (Fin r) = Inl e) \<longleftrightarrow> p + r = 0)
   \<and> f1 (Fin 0) (Fin 0) = Inl (DomainError ''f1'' [Fin 0, Fin 0])"
  by (simp add: f1_fin)

theorem f1_properties_witness:
  "(0::real) < 0.5 \<and> (0.5::real) + 0.25 \<noteq> 0
   \<and> f1 (Fin 0.5) (Fin 0.5) = Inr (Fin 0.5)
   \<and> f1 (Fin 0.5) (Fin 0.25) = Inr (Fin (1 / 3))
   \<and> (\<exists>e. f1 (Fin 1) (Fin (- 1)) = Inl e)"
  using f1_properties [of "0.5" "0.5"] f1_properties [of "0.5" "0.25"]
    f1_properties [of 1 "- 1"]
  by simp

section \<open>The search space lies inside the domain\<close>

lemma log10_lr_small: "log 10 (1 / 10000 :: real) = - 4" "log 10 (1 / 1000 :: real) = - 3"
proof -
  have "log 10 (1 / 10 ^ 4 :: real) = - 4" by (simp add: log_divide del: power_numeral)
  then show "log 10 (1 / 10000 :: real) = - 4" by simp
  have "log 10 (1 / 10 ^ 3 :: real) = - 3" by (simp add: log_divide del: power_numeral)
  then show "log 10 (1 / 1000 :: real) = - 3" by simp
qed

lemma log10_small_square:
  fixes x :: real
  assumes "1 < x" and "x * x < 10"
  shows "0 < log 10 x \<and> (log 10 x)\<^sup>2 < 1 / 4"
proof -
  have pos: "0 < log 10 x" using assms by simp
  have "log 10 (x * x) < log 10 10" using assms by (intro log_less) simp_all
  then have "2 * log 10 x < 1" using assms by (simp add: log_mult)
  then have "log 10 x < 1 / 2" by simp
  then have "log 10 x * log 10 x < (1 / 2) * (1 / 2)"
    using pos by (intro mult_strict_mono) simp_all
  then show ?thesis using pos by (simp add: power2_eq_square)
qed

lemma grid_members:
  assumes "tp \<in> set ps"
  shows "(threshold tp = 0.05 \<or> threshold tp = 0.20)
    \<and> (epoch_count tp = 1 \<or> epoch_count tp = 20)
    \<and> (learning_rate tp = 0.0001 \<or> learning_rate tp = 0.001)"
  using assms by (auto simp add: ps_def thr_choice_def epoch_choice_def lr_choice_def)

lemma grid_accuracy_of_epoch:
  assumes "epoch = 1 \<or> epoch = 20"
  shows "\<exists>a. accuracy_of_epoch epoch = Fin a \<and> 0 < a"
proof -
  have d: "0 < 3 - 0.025 * epoch" using assms by auto
  have "1 < 3 - 0.025 * epoch" "(3 - 0.025 * epoch) * (3 - 0.025 * epoch) < 10"
    using assms by auto
  from log10_small_square [OF this]
  have "0 < 0.95 - 3 * (log 10 (3 - 0.025 * epoch))\<^sup>2" by simp
  then show ?thesis using accuracy_of_epoch_fin [OF d] by blast
qed

lemma grid_lr_domain:
  assumes "lr = 0.0001 \<or> lr = 0.001"
  shows "0 < lr \<and> log 10 lr < 0.9 \<and> 0.5 * log 10 lr < 0.7"
  using assms
proof
  assume h: "lr = 0.0001"
  show ?thesis unfolding h by (simp add: log10_lr_small)
next
  assume h: "lr = 0.001"
  show ?thesis unfolding h by (simp add: log10_lr_small)
qed

lemma grid_accuracy_of_lr:
  assumes "lr = 0.0001 \<or> lr = 0.001"
  shows "\<exists>a. accuracy_of_lr lr = Fin a \<and> 0 < a"
proof -
  have "1 < 0.7 - 0.5 * log 10 lr
    \<and> (0.7 - 0.5 * log 10 lr) * (0.7 - 0.5 * log 10 lr) < 10"
    using assms
  proof
    assume h: "lr = 0.0001"
    show ?thesis unfolding h by (simp add: log10_lr_small)
  next
    assume h: "lr = 0.001"
    show ?thesis unfolding h by (simp add: log10_lr_small)
  qed
  then have "1 < 0.7 - 0.5 * log 10 lr"
    "(0.7 - 0.5 * log 10 lr) * (0.7 - 0.5 * log 10 lr) < 10" by simp_all
  from log10_small_square [OF this]
  have "0 < 0.98 - (log 10 (0.7 - 0.5 * log 10 lr))\<^sup>2" by simp
  then show ?thesis using accuracy_of_lr_fin [of lr] grid_lr_domain [OF assms] by blast
qed

lemma evaluate_finite:
  assumes d: "0 < 3 - 0.025 * epoch_count tp" "0 < learning_rate tp"
      "log 10 (learning_rate tp) < 0.9" "0.5 * log 10 (learning_rate tp) < 0.7"
    and ae: "accuracy_of_epoch (epoch_count tp) = Fin ae" "0 < ae"
    and al: "accuracy_of_lr (learning_rate tp) = Fin al" "0 < al"
    and ll: "loss_of_lr (learning_rate tp) = Fin ll"
  shows "\<exists>m. evaluate tp default_weights = Inr m
     \<and> is_finite (m_precision m) \<and> is_finite (m_recall m) \<and> is_finite (m_loss m)
     \<and> is_finite (m_accuracy m) \<and> is_finite (m_f1 m)"
proof -
  obtain pt where pt: "precision_of_threshold (threshold tp) = Fin pt" "0 < pt"
    using precision_of_threshold_bounds [of "threshold tp"]
    by (cases "precision_of_threshold (threshold tp)") simp_all
  obtain rt where rt: "recall_of_threshold (threshold tp) = Fin rt" "0 < rt"
    using recall_of_threshold_bounds [of "threshold tp"]
    by (cases "recall_of_threshold (threshold tp)") simp_all
  have k: "k_accuracy default_weights = 1" "k_precision default_weights = 1"
    "k_recall default_weights = 1" "k_loss default_weights = 1"
    by (simp_all add: default_weights_def)
  have a: "accuracy default_weights (epoch_count tp) (learning_rate tp) = Fin (ae * al)"
    by (simp add: accuracy_def k ae al)
  have p: "precision default_weights (threshold tp) (epoch_count tp) (learning_rate tp)
             = Fin (pt * (ae * al))"
    by (simp add: precision_def a pt k)
  have r: "recall default_weights (threshold tp) (epoch_count tp) (learning_rate tp)
             = Fin (rt * (ae * al))"
    by (simp add: recall_def a rt k)
  have l: "is_finite (loss default_weights (epoch_count tp) (learning_rate tp))"
    by (simp add: loss_def ll loss_of_epoch_fin)
  have "0 < pt * (ae * al)" "0 < rt * (ae * al)" using pt rt ae al by simp_all
  then have "pt * (ae * al) + rt * (ae * al) \<noteq> 0" by linarith
  then have f: "f1 (Fin (pt * (ae * al))) (Fin (rt * (ae * al)))
     = Inr (Fin (2 * (pt * (ae * al)) * (rt * (ae * al)) / (pt * (ae * al) + rt * (ae * al))))"
    by (simp add: f1_def)
  show ?thesis
    using l d by (simp add: evaluate_def Let_def p r a f)
qed

text \<open>
  Claim C10. Every combination of the grid lies strictly inside the domain of every metric
  function: \<open>epoch < 120\<close>, so \<open>3 - 0.025 * epoch > 0\<close>, and \<open>0 < lr < 10^0.9\<close>, so every
  argument of a logarithm is positive. Hence every univariate curve is finite there, and the
  evaluation with the default weights returns, without an error, finite values for the four
  metrics and the F-score.
\<close>

theorem grid_inside_domain:
  "\<forall>tp \<in> set ps.
     0 < 3 - 0.025 * epoch_count tp \<and> epoch_count tp < 120
     \<and> 0 < learning_rate tp \<and> learning_rate tp < 10 powr 0.9
     \<and> log 10 (learning_rate tp) < 0.9 \<and> 0.5 * log 10 (learning_rate tp) < 0.7
     \<and> is_finite (precision_of_threshold (threshold tp))
     \<and> is_finite (recall_of_threshold (threshold tp))
     \<and> is_finite (loss_of_epoch (epoch_count tp))
     \<and> is_finite (accuracy_of_epoch (epoch_count tp))
     \<and> is_finite (loss_of_lr (learning_rate tp))
     \<and> is_finite (accuracy_of_lr (learning_rate tp))
     \<and> (\<exists>m. evaluate tp default_weights = Inr m
          \<and> is_finite (m_precision m) \<and> is_finite (m_recall m) \<and> is_finite (m_loss m)
          \<and> is_finite (m_accuracy m) \<and> is_finite (m_f1 m))"
proof
  fix tp assume "tp \<in> set ps"
  from grid_members [OF this]
  have e: "epoch_count tp = 1 \<or> epoch_count tp = 20"
    and l: "learning_rate tp = 0.0001 \<or> learning_rate tp = 0.001" by simp_all
  have d1: "0 < 3 - 0.025 * epoch_count tp" "epoch_count tp < 120" using e by auto
  note d2 = grid_lr_domain [OF l]
  have d3: "learning_rate tp < 10 powr 0.9"
    using d2 log_less_iff [of 10 "learning_rate tp" "0.9"] by simp
  obtain ae where ae: "accuracy_of_epoch (epoch_count tp) = Fin ae" "0 < ae"
    using grid_accuracy_of_epoch [OF e] by blast
  obtain al where al: "accuracy_of_lr (learning_rate tp) = Fin al" "0 < al"
    using grid_accuracy_of_lr [OF l] by blast
  obtain ll where ll: "loss_of_lr (learning_rate tp) = Fin ll"
    using loss_of_lr_fin [of "learning_rate tp"] d2 by blast
  note ev = evaluate_finite [OF d1(1) d2 [THEN conjunct1] d2 [THEN conjunct2, THEN conjunct1]
      d2 [THEN conjunct2, THEN conjunct2] ae al ll]
  show "0 < 3 - 0.025 * epoch_count tp \<and> epoch_count tp < 120
     \<and> 0 < learning_rate tp \<and> learning_rate tp < 10 powr 0.9
     \<and> log 10 (learning_rate tp) < 0.9 \<and> 0.5 * log 10 (learning_rate tp) < 0.7
     \<and> is_finite (precision_of_threshold (threshold tp))
     \<and> is_finite (recall_of_threshold (threshold tp))
     \<and> is_finite (loss_of_epoch (epoch_count tp))
     \<and> is_finite (accuracy_of_epoch (epoch_count tp))
     \<and> is_finite (loss_of_lr (learning_rate tp))
     \<and> is_finite (accuracy_of_lr (learning_rate tp))
     \<and> (\<exists>m. evaluate tp default_weights = Inr m
          \<and> is_finite (m_precision m) \<and> is_finite (m_recall m) \<and> is_finite (m_loss m)
          \<and> is_finite (m_accuracy m) \<and> is_finite (m_f1 m))"
    using d1 d2 d3 ev
    by (simp add: precision_of_threshold_fin recall_of_threshold_fin loss_of_epoch_fin ae al ll)
qed

theorem grid_inside_domain_witness:
  "\<lparr>threshold = 0.05, epoch_count = 1, learning_rate = 0.0001\<rparr> \<in> set ps
   \<and> length ps = 8
   \<and> (0.0001::real) < 10 powr 0.9
   \<and> is_finite (accuracy_of_epoch 1) \<and> is_finite (loss_of_lr 0.0001)
   \<and> is_finite (accuracy_of_lr 0.0001)
   \<and> (\<exists>m. evaluate \<lparr>threshold = 0.05, epoch_count = 1, learning_rate = 0.0001\<rparr> default_weights
            = Inr m \<and> is_finite (m_f1 m))"
proof -
  have m: "\<lparr>threshold = 0.05, epoch_count = 1, learning_rate = 0.0001\<rparr> \<in> set ps"
    by (simp add: ps_def thr_choice_def epoch_choice_def lr_choice_def)
  have n: "length ps = 8"
    by (simp add: ps_def thr_choice_def epoch_choice_def lr_choice_def)
  from bspec [OF grid_inside_domain m] m n show ?thesis
    by simp blast
qed

end
